theory Spec2Isabelle
  imports Complex_Main
begin

section \<open>Data model of the graphic editor\<close>

text \<open>
  The embedding follows \<^verbatim>\<open>src/components/graphic-editor.tsx\<close>. JavaScript numbers
  are modelled as real numbers (no rounding, no NaN, no infinities), strings as
  \<^typ>\<open>string\<close>, an optional field of an interface as an \<^typ>\<open>'a option\<close>.
  The tool identifier and the element type are strings in the source
  (\<^verbatim>\<open>useState<string>("select")\<close>, \<^verbatim>\<open>type: tool as any\<close>) and stay strings here.
\<close>

record point =
  pt_x :: real
  pt_y :: real

text \<open>The interface \<^verbatim>\<open>DrawingElement\<close>; the last three fields are the ones the
  properties panel adds to it (\<^verbatim>\<open>rotation\<close>, \<^verbatim>\<open>flipX\<close>, \<^verbatim>\<open>flipY\<close>).\<close>

record element =
  el_id :: string
  el_type :: string
  el_x :: real
  el_y :: real
  el_color :: string
  el_strokeWidth :: real
  el_points :: "point list option"
  el_width :: "real option"
  el_height :: "real option"
  el_radius :: "real option"
  el_endX :: "real option"
  el_endY :: "real option"
  el_text :: "string option"
  el_fontSize :: "real option"
  el_fontFamily :: "string option"
  el_textAlign :: "string option"
  el_visible :: "bool option"
  el_name :: "string option"
  el_imageData :: "string option"
  el_imageWidth :: "real option"
  el_imageHeight :: "real option"
  el_rotation :: "real option"
  el_flipX :: "bool option"
  el_flipY :: "bool option"

text \<open>The interface \<^verbatim>\<open>CanvasState\<close>.\<close>

record canvas_state =
  elements :: "element list"
  selectedElementId :: "string option"

text \<open>
  The state of the component \<^verbatim>\<open>GraphicEditor\<close>: one field for each \<^verbatim>\<open>useState\<close>.
\<close>

record editor =
  tool :: string
  isDrawing :: bool
  currentColor :: string
  strokeWidth :: real
  fillMode :: bool
  fontSize :: real
  canvasState :: canvas_state
  history :: "canvas_state list"
  historyIndex :: nat
  panOffset :: point
  zoom :: real
  isPanning :: bool
  lastPanPoint :: point
  isEditingText :: bool
  textInputPosition :: point
  textInputValue :: string
  fontFamily :: string
  textAlign :: string
  isDragging :: bool
  dragStart :: point
  dragElementStart :: point

text \<open>
  The canvas element behind \<^verbatim>\<open>canvasRef\<close>: its bounding rectangle's origin, its
  \<^verbatim>\<open>width\<close> and \<^verbatim>\<open>height\<close> attributes, and its 2d context, of which only
  \<^verbatim>\<open>measureText\<close> is used (the width of a text in a font of a given size and family).
  The ref is \<^verbatim>\<open>null\<close> before mounting, hence an option wherever it is read.
\<close>

record canvas =
  cv_left :: real
  cv_top :: real
  cv_width :: real
  cv_height :: real
  cv_measureText :: "(real \<Rightarrow> string \<Rightarrow> string \<Rightarrow> real) option"

record mouse_event =
  button :: nat
  ctrlKey :: bool
  clientX :: real
  clientY :: real

definition emptyCanvasState :: canvas_state where
  "emptyCanvasState = \<lparr>elements = [], selectedElementId = None\<rparr>"

text \<open>The initial values of the \<^verbatim>\<open>useState\<close> calls.\<close>

definition initialEditor :: editor where
  "initialEditor =
     \<lparr>tool = ''select'', isDrawing = False, currentColor = ''#164e63'', strokeWidth = 2,
      fillMode = True, fontSize = 16, canvasState = emptyCanvasState,
      history = [emptyCanvasState], historyIndex = 0,
      panOffset = \<lparr>pt_x = 0, pt_y = 0\<rparr>, zoom = 1, isPanning = False,
      lastPanPoint = \<lparr>pt_x = 0, pt_y = 0\<rparr>, isEditingText = False,
      textInputPosition = \<lparr>pt_x = 0, pt_y = 0\<rparr>, textInputValue = [],
      fontFamily = ''Arial'', textAlign = ''left'', isDragging = False,
      dragStart = \<lparr>pt_x = 0, pt_y = 0\<rparr>, dragElementStart = \<lparr>pt_x = 0, pt_y = 0\<rparr>\<rparr>"

section \<open>History\<close>

text \<open>
  A handler of a React component reads the state of the render it was created in and
  queues its writes; the writes take effect when the handler is done. So a handler is a
  function of the rendered state \<open>r\<close>, and inside one handler every read goes to \<open>r\<close>,
  also after a write. \<^verbatim>\<open>saveToHistory\<close> reads \<^verbatim>\<open>history\<close>, \<^verbatim>\<open>historyIndex\<close> and
  \<^verbatim>\<open>canvasState\<close> of the render \<open>r\<close> and writes \<^verbatim>\<open>history\<close> and \<^verbatim>\<open>historyIndex\<close> of the
  pending state \<open>s\<close>. Each handler below is run on the state the previous one produced
  (a render between two events).

  \<^verbatim>\<open>{ ...canvasState }\<close> copies the two fields of the state; the model has values, not
  references, so a history entry here never changes after it is pushed.
\<close>

definition saveToHistory :: "editor \<Rightarrow> editor \<Rightarrow> editor" where
  "saveToHistory r s =
     (let newHistory = take (historyIndex r + 1) (history r) @ [canvasState r]
      in s\<lparr>history := newHistory, historyIndex := length newHistory - 1\<rparr>)"

text \<open>\<^verbatim>\<open>history[i]\<close> is read only under the guards below; with
  \<open>historyIndex < length history\<close> (see \<open>hist_ok\<close>) both reads are in range.\<close>

definition undo :: "editor \<Rightarrow> editor" where
  "undo s =
     (if historyIndex s > 0
      then s\<lparr>historyIndex := historyIndex s - 1,
             canvasState := history s ! (historyIndex s - 1)\<rparr>
      else s)"

definition redo :: "editor \<Rightarrow> editor" where
  "redo s =
     (if historyIndex s < length (history s) - 1
      then s\<lparr>historyIndex := historyIndex s + 1,
             canvasState := history s ! (historyIndex s + 1)\<rparr>
      else s)"

definition hist_ok :: "editor \<Rightarrow> bool" where
  "hist_ok s = (historyIndex s < length (history s))"

section \<open>Viewport\<close>

definition handleZoomIn :: "editor \<Rightarrow> editor" where
  "handleZoomIn s = s\<lparr>zoom := min (zoom s * 1.2) 5\<rparr>"

definition handleZoomOut :: "editor \<Rightarrow> editor" where
  "handleZoomOut s = s\<lparr>zoom := max (zoom s / 1.2) 0.1\<rparr>"

definition handleZoomReset :: "editor \<Rightarrow> editor" where
  "handleZoomReset s = s\<lparr>zoom := 1, panOffset := \<lparr>pt_x = 0, pt_y = 0\<rparr>\<rparr>"

text \<open>The range every zoom handler clamps to.\<close>

definition zoom_ok :: "editor \<Rightarrow> bool" where
  "zoom_ok s = (0.1 \<le> zoom s \<and> zoom s \<le> 5)"

definition getMousePos :: "canvas option \<Rightarrow> editor \<Rightarrow> mouse_event \<Rightarrow> point" where
  "getMousePos cref s e =
     (case cref of
        None \<Rightarrow> \<lparr>pt_x = 0, pt_y = 0\<rparr>
      | Some cv \<Rightarrow>
          \<lparr>pt_x = (clientX e - cv_left cv - pt_x (panOffset s)) / zoom s,
           pt_y = (clientY e - cv_top cv - pt_y (panOffset s)) / zoom s\<rparr>)"


text \<open>A pointer event at a screen point, given relative to the canvas origin.\<close>

definition eventAt :: "canvas \<Rightarrow> point \<Rightarrow> mouse_event" where
  "eventAt cv p =
     \<lparr>button = 0, ctrlKey = False, clientX = cv_left cv + pt_x p, clientY = cv_top cv + pt_y p\<rparr>"

section \<open>JavaScript idioms\<close>

text \<open>
  \<^verbatim>\<open>v || d\<close> on an optional number: \<open>d\<close> when \<open>v\<close> is \<^verbatim>\<open>undefined\<close> or \<open>0\<close>
  (both falsy), \<open>v\<close> otherwise.
\<close>

definition num_or :: "real option \<Rightarrow> real \<Rightarrow> real" where
  "num_or v d = (case v of None \<Rightarrow> d | Some n \<Rightarrow> if n = 0 then d else n)"

definition str_or :: "string option \<Rightarrow> string \<Rightarrow> string" where
  "str_or v d = (case v of None \<Rightarrow> d | Some t \<Rightarrow> if t = [] then d else t)"

text \<open>The truth value of a \<^verbatim>\<open>string | null\<close>: \<^verbatim>\<open>null\<close> and the empty string are falsy.\<close>

definition truthy_str :: "string option \<Rightarrow> bool" where
  "truthy_str v = (case v of None \<Rightarrow> False | Some t \<Rightarrow> t \<noteq> [])"

text \<open>The truth value of an optional boolean: \<^verbatim>\<open>undefined\<close> is falsy.\<close>

definition truthy_bool :: "bool option \<Rightarrow> bool" where
  "truthy_bool v = (case v of None \<Rightarrow> False | Some b \<Rightarrow> b)"

text \<open>
  \<^verbatim>\<open>String.prototype.trim\<close> on the white space of ASCII (space, tab, line feed,
  vertical tab, form feed, carriage return).
\<close>

definition is_space :: "char \<Rightarrow> bool" where
  "is_space c = (c \<in> set [CHR '' '', CHR 0x09, CHR 0x0A, CHR 0x0B, CHR 0x0C, CHR 0x0D])"

definition js_trim :: "string \<Rightarrow> string" where
  "js_trim t = rev (dropWhile is_space (rev (dropWhile is_space t)))"

section \<open>Hit testing\<close>

definition distance :: "real \<Rightarrow> real \<Rightarrow> real \<Rightarrow> real \<Rightarrow> real" where
  "distance ax ay bx by = sqrt ((ax - bx)^2 + (ay - by)^2)"

text \<open>
  One iteration of the loop of \<^verbatim>\<open>findElementAtPosition\<close>, for an element that is
  visible: whether the iteration returns the element's id. The chain of
  \<^verbatim>\<open>else if\<close> is kept in the source's order; a line of length zero is skipped
  (\<^verbatim>\<open>continue\<close>), a text is tested only with a canvas and a 2d context.
\<close>

definition hitTest :: "canvas option \<Rightarrow> element \<Rightarrow> point \<Rightarrow> bool" where
  "hitTest cref element pos =
    (if el_type element = ''rectangle'' \<or> el_type element = ''triangle'' then
       (let width = num_or (el_width element) 0;
            height = num_or (el_height element) 0;
            minX = (if width \<ge> 0 then el_x element else el_x element + width);
            maxX = (if width \<ge> 0 then el_x element + width else el_x element);
            minY = (if height \<ge> 0 then el_y element else el_y element + height);
            maxY = (if height \<ge> 0 then el_y element + height else el_y element)
        in pt_x pos \<ge> minX \<and> pt_x pos \<le> maxX \<and> pt_y pos \<ge> minY \<and> pt_y pos \<le> maxY)
     else if el_type element = ''circle'' then
       distance (pt_x pos) (pt_y pos) (el_x element) (el_y element) \<le> num_or (el_radius element) 0
     else if el_type element = ''star'' \<or> el_type element = ''polygon'' then
       distance (pt_x pos) (pt_y pos) (el_x element) (el_y element) \<le> num_or (el_radius element) 0
     else if el_type element = ''line'' then
       (let x1 = el_x element;
            y1 = el_y element;
            x2 = num_or (el_endX element) (el_x element);
            y2 = num_or (el_endY element) (el_y element);
            A = pt_x pos - x1;
            B = pt_y pos - y1;
            C = x2 - x1;
            D = y2 - y1;
            dot = A * C + B * D;
            lenSq = C * C + D * D
        in if lenSq = 0 then False
           else
             (let param = dot / lenSq;
                  xx = (if param < 0 then x1 else if param > 1 then x2 else x1 + param * C);
                  yy = (if param < 0 then y1 else if param > 1 then y2 else y1 + param * D);
                  dx = pt_x pos - xx;
                  dy = pt_y pos - yy
              in sqrt (dx * dx + dy * dy) \<le> max (el_strokeWidth element / 2) 8))
     else if el_type element = ''text'' \<and> truthy_str (el_text element) then
       (case cref of
          None \<Rightarrow> False
        | Some cv \<Rightarrow>
            (case cv_measureText cv of
               None \<Rightarrow> False
             | Some measureText \<Rightarrow>
                 (let textWidth = measureText (num_or (el_fontSize element) 16)
                                    (str_or (el_fontFamily element) ''Arial'')
                                    (the (el_text element));
                      textHeight = num_or (el_fontSize element) 16
                  in pt_x pos \<ge> el_x element \<and> pt_x pos \<le> el_x element + textWidth \<and>
                     pt_y pos \<ge> el_y element - textHeight \<and> pt_y pos \<le> el_y element + 4)))
     else if el_type element = ''image'' then
       (let width = num_or (el_width element) (num_or (el_imageWidth element) 0);
            height = num_or (el_height element) (num_or (el_imageHeight element) 0)
        in pt_x pos \<ge> el_x element \<and> pt_x pos \<le> el_x element + width \<and>
           pt_y pos \<ge> el_y element \<and> pt_y pos \<le> el_y element + height)
     else if el_type element = ''brush'' \<and> el_points element \<noteq> None then
       list_ex (\<lambda>p. distance (pt_x pos) (pt_y pos) (pt_x p) (pt_y p)
                      \<le> max (el_strokeWidth element) 8)
               (the (el_points element))
     else False)"

text \<open>
  The loop \<^verbatim>\<open>for (let i = length - 1; i >= 0; i--)\<close>: \<open>findLoop cref els pos n\<close> runs
  the iterations \<open>i = n - 1, \<dots>, 0\<close>.
\<close>

fun findLoop :: "canvas option \<Rightarrow> element list \<Rightarrow> point \<Rightarrow> nat \<Rightarrow> string option" where
  "findLoop cref els pos 0 = None"
| "findLoop cref els pos (Suc i) =
     (let element = els ! i
      in if \<not> truthy_bool (el_visible element) then findLoop cref els pos i
         else if hitTest cref element pos then Some (el_id element)
         else findLoop cref els pos i)"

definition findElementAtPosition :: "canvas option \<Rightarrow> canvas_state \<Rightarrow> point \<Rightarrow> string option" where
  "findElementAtPosition cref cs pos = findLoop cref (elements cs) pos (length (elements cs))"

section \<open>Creating elements\<close>

text \<open>
  \<^verbatim>\<open>generateId\<close> draws a random string; the drawn string is an argument \<open>newId\<close> of
  every function that calls it.
\<close>

definition baseElement :: "string \<Rightarrow> string \<Rightarrow> real \<Rightarrow> real \<Rightarrow> string \<Rightarrow> real \<Rightarrow> element" where
  "baseElement i ty ex ey col sw =
     \<lparr>el_id = i, el_type = ty, el_x = ex, el_y = ey, el_color = col, el_strokeWidth = sw,
      el_points = None, el_width = None, el_height = None, el_radius = None,
      el_endX = None, el_endY = None, el_text = None, el_fontSize = None,
      el_fontFamily = None, el_textAlign = None, el_visible = Some True, el_name = None,
      el_imageData = None, el_imageWidth = None, el_imageHeight = None,
      el_rotation = None, el_flipX = None, el_flipY = None\<rparr>"

definition newShape :: "editor \<Rightarrow> point \<Rightarrow> string \<Rightarrow> element" where
  "newShape r pos newId =
     (let newElement = baseElement newId (tool r) (pt_x pos) (pt_y pos) (currentColor r) (strokeWidth r)
      in if tool r = ''brush'' then newElement\<lparr>el_points := Some [pos]\<rparr>
         else if tool r = ''rectangle'' \<or> tool r = ''triangle''
           then newElement\<lparr>el_width := Some 0, el_height := Some 0\<rparr>
         else if tool r = ''circle'' \<or> tool r = ''star'' \<or> tool r = ''polygon''
           then newElement\<lparr>el_radius := Some 0\<rparr>
         else if tool r = ''line''
           then newElement\<lparr>el_endX := Some (pt_x pos), el_endY := Some (pt_y pos)\<rparr>
         else newElement)"

text \<open>The updater \<^verbatim>\<open>(prev) => ({...prev, elements: [...prev.elements, newElement],
  selectedElementId: newElement.id})\<close>, shared by every function that creates an element.\<close>

definition appendElement :: "element \<Rightarrow> canvas_state \<Rightarrow> canvas_state" where
  "appendElement newElement prev =
     prev\<lparr>elements := elements prev @ [newElement], selectedElementId := Some (el_id newElement)\<rparr>"

definition addElement :: "editor \<Rightarrow> point \<Rightarrow> string \<Rightarrow> editor \<Rightarrow> editor" where
  "addElement r pos newId s = s\<lparr>canvasState := appendElement (newShape r pos newId) (canvasState s)\<rparr>"

definition newText :: "editor \<Rightarrow> string \<Rightarrow> element" where
  "newText r newId =
     (baseElement newId ''text'' (pt_x (textInputPosition r)) (pt_y (textInputPosition r))
        (currentColor r) (strokeWidth r))
       \<lparr>el_text := Some (textInputValue r), el_fontSize := Some (fontSize r),
        el_fontFamily := Some (fontFamily r), el_textAlign := Some (textAlign r)\<rparr>"

definition completeTextInput :: "editor \<Rightarrow> string \<Rightarrow> editor" where
  "completeTextInput r newId =
     (let s = (if js_trim (textInputValue r) \<noteq> []
               then saveToHistory r (r\<lparr>canvasState := appendElement (newText r newId) (canvasState r)\<rparr>)
               else r)
      in s\<lparr>isEditingText := False, textInputValue := []\<rparr>)"

text \<open>The Escape key of the text input.\<close>

definition cancelTextInput :: "editor \<Rightarrow> editor" where
  "cancelTextInput r = r\<lparr>isEditingText := False, textInputValue := []\<rparr>"

section \<open>Pointer handlers\<close>

text \<open>
  The body of \<^verbatim>\<open>handleMouseDown\<close> after its first test (the lines from the panning
  test to \<^verbatim>\<open>addElement(pos)\<close>). \<^verbatim>\<open>fileInputRef.current?.click()\<close> opens the file
  chooser and writes no state. \<^verbatim>\<open>elements.find\<close> returns the first element with the id.
\<close>

definition mouseDownBody :: "canvas option \<Rightarrow> editor \<Rightarrow> mouse_event \<Rightarrow> string \<Rightarrow> editor" where
  "mouseDownBody cref r e newId =
     (if button e = 1 \<or> (button e = 0 \<and> (ctrlKey e \<or> tool r = ''pan''))
      then r\<lparr>isPanning := True, lastPanPoint := \<lparr>pt_x = clientX e, pt_y = clientY e\<rparr>\<rparr>
      else
        (let pos = getMousePos cref r e;
             s = r\<lparr>isDrawing := True\<rparr>
         in if tool r = ''image'' then s
            else if tool r = ''select'' then
              (let elementId = findElementAtPosition cref (canvasState r) pos;
                   s1 = s\<lparr>canvasState := (canvasState s)\<lparr>selectedElementId := elementId\<rparr>\<rparr>
               in if truthy_str elementId
                  then (case find (\<lambda>el. Some (el_id el) = elementId) (elements (canvasState r)) of
                          Some element \<Rightarrow>
                            s1\<lparr>isDragging := True, dragStart := pos,
                               dragElementStart := \<lparr>pt_x = el_x element, pt_y = el_y element\<rparr>\<rparr>
                        | None \<Rightarrow> s1)
                  else s1)
            else if tool r = ''text''
              then s\<lparr>isEditingText := True, textInputPosition := pos, textInputValue := []\<rparr>
            else addElement r pos newId s))"

definition handleMouseDown :: "canvas option \<Rightarrow> editor \<Rightarrow> mouse_event \<Rightarrow> string \<Rightarrow> editor" where
  "handleMouseDown cref r e newId =
     (if isEditingText r then completeTextInput r newId
      else mouseDownBody cref r e newId)"

text \<open>The element a drag step puts in the place of the selected one.\<close>

definition dragElement :: "editor \<Rightarrow> real \<Rightarrow> real \<Rightarrow> element \<Rightarrow> element" where
  "dragElement r deltaX deltaY element =
     (if el_type element = ''line''
      then element\<lparr>el_x := pt_x (dragElementStart r) + deltaX,
                   el_y := pt_y (dragElementStart r) + deltaY,
                   el_endX := Some (num_or (el_endX element) (el_x element) + deltaX),
                   el_endY := Some (num_or (el_endY element) (el_y element) + deltaY)\<rparr>
      else element\<lparr>el_x := pt_x (dragElementStart r) + deltaX,
                   el_y := pt_y (dragElementStart r) + deltaY\<rparr>)"

text \<open>
  What a pointer move does to the element being drawn. The source writes the fields of
  the last element of the list in place; here the element is rebuilt.
\<close>

definition resizeElement :: "editor \<Rightarrow> point \<Rightarrow> element \<Rightarrow> element" where
  "resizeElement r pos currentElement =
     (if tool r = ''brush'' \<and> el_points currentElement \<noteq> None
        then currentElement\<lparr>el_points := Some (the (el_points currentElement) @ [pos])\<rparr>
      else if tool r = ''rectangle'' \<or> tool r = ''triangle''
        then currentElement\<lparr>el_width := Some (pt_x pos - el_x currentElement),
                            el_height := Some (pt_y pos - el_y currentElement)\<rparr>
      else if tool r = ''circle'' \<or> tool r = ''star'' \<or> tool r = ''polygon''
        then currentElement\<lparr>el_radius :=
               Some (distance (pt_x pos) (pt_y pos) (el_x currentElement) (el_y currentElement))\<rparr>
      else if tool r = ''line''
        then currentElement\<lparr>el_endX := Some (pt_x pos), el_endY := Some (pt_y pos)\<rparr>
      else currentElement)"

definition handleMouseMove :: "canvas option \<Rightarrow> editor \<Rightarrow> mouse_event \<Rightarrow> editor" where
  "handleMouseMove cref r e =
     (if isPanning r then
        (let deltaX = clientX e - pt_x (lastPanPoint r);
             deltaY = clientY e - pt_y (lastPanPoint r)
         in r\<lparr>panOffset := \<lparr>pt_x = pt_x (panOffset r) + deltaX, pt_y = pt_y (panOffset r) + deltaY\<rparr>,
              lastPanPoint := \<lparr>pt_x = clientX e, pt_y = clientY e\<rparr>\<rparr>)
      else if isDragging r \<and> truthy_str (selectedElementId (canvasState r)) then
        (let pos = getMousePos cref r e;
             deltaX = pt_x pos - pt_x (dragStart r);
             deltaY = pt_y pos - pt_y (dragStart r);
             prev = canvasState r
         in r\<lparr>canvasState := prev\<lparr>elements :=
                map (\<lambda>element. if Some (el_id element) = selectedElementId prev
                                then dragElement r deltaX deltaY element else element)
                    (elements prev)\<rparr>\<rparr>)
      else if \<not> isDrawing r then r
      else
        (let pos = getMousePos cref r e;
             prev = canvasState r
         in if elements prev = [] then r
            else r\<lparr>canvasState := prev\<lparr>elements :=
                   butlast (elements prev) @ [resizeElement r pos (last (elements prev))]\<rparr>\<rparr>))"

text \<open>
  \<^verbatim>\<open>handleMouseUp\<close> may call \<^verbatim>\<open>saveToHistory\<close> twice; both calls read the same render
  \<open>r\<close>, so the second writes what the first wrote.
\<close>

definition handleMouseUp :: "editor \<Rightarrow> editor" where
  "handleMouseUp r =
     (let s1 = r\<lparr>isPanning := False\<rparr>;
          s2 = (if isDragging r then saveToHistory r (s1\<lparr>isDragging := False\<rparr>) else s1);
          s3 = (if isDrawing r then saveToHistory r s2 else s2)
      in s3\<lparr>isDrawing := False\<rparr>)"

definition handleWheel :: "editor \<Rightarrow> bool \<Rightarrow> real \<Rightarrow> editor" where
  "handleWheel r ctrl deltaY =
     (if ctrl
      then (let delta = (if deltaY > 0 then 0.9 else 1.1)
            in r\<lparr>zoom := min (max (zoom r * delta) 0.1) 5\<rparr>)
      else r)"

section \<open>Images\<close>

text \<open>
  A file as the handlers see it: its MIME type, the data URI the \<^verbatim>\<open>FileReader\<close> yields,
  and the natural size of the decoded image (\<open>None\<close> when it does not decode, so that
  \<^verbatim>\<open>img.onload\<close> never runs).
\<close>

record js_file =
  f_type :: string
  f_data :: string
  f_size :: "(real \<times> real) option"

definition isImageFile :: "js_file \<Rightarrow> bool" where
  "isImageFile f = (take 6 (f_type f) = ''image/'')"

text \<open>The scaling step of \<^verbatim>\<open>img.onload\<close>: the size the element gets.\<close>

definition scaledSize :: "canvas \<Rightarrow> real \<Rightarrow> real \<Rightarrow> real \<times> real" where
  "scaledSize cv width height =
     (let maxWidth = cv_width cv * 0.5;
          maxHeight = cv_height cv * 0.5
      in if width > maxWidth \<or> height > maxHeight
         then (let ratio = min (maxWidth / width) (maxHeight / height)
               in (width * ratio, height * ratio))
         else (width, height))"

text \<open>
  \<^verbatim>\<open>img.onload\<close> of \<^verbatim>\<open>processImageFile\<close>. It runs later than the handler that started
  the load: \<open>r\<close> is the render that handler belonged to (read by \<^verbatim>\<open>currentColor\<close>,
  \<^verbatim>\<open>strokeWidth\<close> and \<^verbatim>\<open>saveToHistory\<close>), \<open>s\<close> the state when the image has loaded.
\<close>

definition imageOnload ::
  "editor \<Rightarrow> canvas option \<Rightarrow> point option \<Rightarrow> real \<Rightarrow> real \<Rightarrow> string \<Rightarrow> string \<Rightarrow> editor \<Rightarrow> editor" where
  "imageOnload r cref dropPosition imgWidth imgHeight dataUrl newId s =
     (case cref of
        None \<Rightarrow> s
      | Some cv \<Rightarrow>
          (let (width, height) = scaledSize cv imgWidth imgHeight;
               ex = (case dropPosition of Some d \<Rightarrow> pt_x d - width / 2
                                        | None \<Rightarrow> (cv_width cv - width) / 2);
               ey = (case dropPosition of Some d \<Rightarrow> pt_y d - height / 2
                                        | None \<Rightarrow> (cv_height cv - height) / 2);
               newElement = (baseElement newId ''image'' ex ey (currentColor r) (strokeWidth r))
                              \<lparr>el_imageData := Some dataUrl, el_imageWidth := Some width,
                               el_imageHeight := Some height, el_width := Some width,
                               el_height := Some height\<rparr>
           in saveToHistory r (s\<lparr>canvasState := appendElement newElement (canvasState s)\<rparr>)))"

definition processImageFile ::
  "editor \<Rightarrow> canvas option \<Rightarrow> js_file \<Rightarrow> point option \<Rightarrow> string \<Rightarrow> editor \<Rightarrow> editor" where
  "processImageFile r cref f dropPosition newId s =
     (case f_size f of
        None \<Rightarrow> s
      | Some (imgWidth, imgHeight) \<Rightarrow>
          imageOnload r cref dropPosition imgWidth imgHeight (f_data f) newId s)"

text \<open>
  \<^verbatim>\<open>handleDrop\<close> and \<^verbatim>\<open>handleImageUpload\<close>, with the load they start run to its end
  before the next event (\<open>s = r\<close> in \<open>imageOnload\<close>).
\<close>

definition handleDrop :: "canvas option \<Rightarrow> editor \<Rightarrow> mouse_event \<Rightarrow> js_file list \<Rightarrow> string \<Rightarrow> editor" where
  "handleDrop cref r e files newId =
     (let imageFiles = filter isImageFile files
      in if imageFiles = [] then r
         else (case cref of
                 None \<Rightarrow> r
               | Some cv \<Rightarrow>
                   (let dropPosition =
                          \<lparr>pt_x = (clientX e - cv_left cv - pt_x (panOffset r)) / zoom r,
                           pt_y = (clientY e - cv_top cv - pt_y (panOffset r)) / zoom r\<rparr>
                    in processImageFile r cref (hd imageFiles) (Some dropPosition) newId r)))"

definition handleImageUpload :: "canvas option \<Rightarrow> editor \<Rightarrow> js_file list \<Rightarrow> string \<Rightarrow> editor" where
  "handleImageUpload cref r files newId =
     (case files of
        [] \<Rightarrow> r
      | f # _ \<Rightarrow> if \<not> isImageFile f then r else processImageFile r cref f None newId r)"

section \<open>Editing and deleting the selection\<close>

text \<open>
  \<^verbatim>\<open>Partial<DrawingElement>\<close>: the fields an update object carries, in any number.
  \<^verbatim>\<open>{ ...element, ...updates }\<close> writes each of them over the element's.
\<close>

datatype field =
    F_id string | F_type string | F_x real | F_y real | F_color string | F_strokeWidth real
  | F_points "point list" | F_width real | F_height real | F_radius real
  | F_endX real | F_endY real | F_text string | F_fontSize real | F_fontFamily string
  | F_textAlign string | F_visible bool | F_name string | F_imageData string
  | F_imageWidth real | F_imageHeight real | F_rotation real | F_flipX bool | F_flipY bool

fun assignField :: "element \<Rightarrow> field \<Rightarrow> element" where
  "assignField el (F_id v) = el\<lparr>el_id := v\<rparr>"
| "assignField el (F_type v) = el\<lparr>el_type := v\<rparr>"
| "assignField el (F_x v) = el\<lparr>el_x := v\<rparr>"
| "assignField el (F_y v) = el\<lparr>el_y := v\<rparr>"
| "assignField el (F_color v) = el\<lparr>el_color := v\<rparr>"
| "assignField el (F_strokeWidth v) = el\<lparr>el_strokeWidth := v\<rparr>"
| "assignField el (F_points v) = el\<lparr>el_points := Some v\<rparr>"
| "assignField el (F_width v) = el\<lparr>el_width := Some v\<rparr>"
| "assignField el (F_height v) = el\<lparr>el_height := Some v\<rparr>"
| "assignField el (F_radius v) = el\<lparr>el_radius := Some v\<rparr>"
| "assignField el (F_endX v) = el\<lparr>el_endX := Some v\<rparr>"
| "assignField el (F_endY v) = el\<lparr>el_endY := Some v\<rparr>"
| "assignField el (F_text v) = el\<lparr>el_text := Some v\<rparr>"
| "assignField el (F_fontSize v) = el\<lparr>el_fontSize := Some v\<rparr>"
| "assignField el (F_fontFamily v) = el\<lparr>el_fontFamily := Some v\<rparr>"
| "assignField el (F_textAlign v) = el\<lparr>el_textAlign := Some v\<rparr>"
| "assignField el (F_visible v) = el\<lparr>el_visible := Some v\<rparr>"
| "assignField el (F_name v) = el\<lparr>el_name := Some v\<rparr>"
| "assignField el (F_imageData v) = el\<lparr>el_imageData := Some v\<rparr>"
| "assignField el (F_imageWidth v) = el\<lparr>el_imageWidth := Some v\<rparr>"
| "assignField el (F_imageHeight v) = el\<lparr>el_imageHeight := Some v\<rparr>"
| "assignField el (F_rotation v) = el\<lparr>el_rotation := Some v\<rparr>"
| "assignField el (F_flipX v) = el\<lparr>el_flipX := Some v\<rparr>"
| "assignField el (F_flipY v) = el\<lparr>el_flipY := Some v\<rparr>"

definition spread :: "element \<Rightarrow> field list \<Rightarrow> element" where
  "spread el updates = foldl assignField el updates"

definition updateSelectedElement :: "editor \<Rightarrow> field list \<Rightarrow> editor" where
  "updateSelectedElement r updates =
     (if \<not> truthy_str (selectedElementId (canvasState r)) then r
      else
        (let prev = canvasState r
         in saveToHistory r
              (r\<lparr>canvasState := prev\<lparr>elements :=
                   map (\<lambda>element. if Some (el_id element) = selectedElementId prev
                                   then spread element updates else element)
                       (elements prev)\<rparr>\<rparr>)))"

definition deleteSelectedElement :: "editor \<Rightarrow> editor" where
  "deleteSelectedElement r =
     (if \<not> truthy_str (selectedElementId (canvasState r)) then r
      else
        (let prev = canvasState r
         in saveToHistory r
              (r\<lparr>canvasState := prev\<lparr>elements :=
                     filter (\<lambda>element. Some (el_id element) \<noteq> selectedElementId prev) (elements prev),
                   selectedElementId := None\<rparr>\<rparr>)))"


section \<open>Events and runs\<close>

text \<open>
  The events the component reacts to, each with what the environment supplies: the
  pointer event, the string \<^verbatim>\<open>generateId\<close> draws, the files of a drop or an upload.
  The text input exists only while \<^verbatim>\<open>isEditingText\<close> holds, so its events count only
  then; \<open>TextCommit\<close> is the Enter key or the loss of focus.
\<close>

datatype event =
    MouseDown mouse_event string
  | MouseMove mouse_event
  | MouseUp
  | Wheel bool real
  | SetTool string
  | Undo
  | Redo
  | ZoomIn
  | ZoomOut
  | ZoomReset
  | SetFillMode bool
  | TextChange string
  | TextCommit string
  | TextEscape
  | UpdateElement "field list"
  | DeleteElement
  | Drop mouse_event "js_file list" string
  | Upload "js_file list" string

fun step :: "canvas option \<Rightarrow> editor \<Rightarrow> event \<Rightarrow> editor" where
  "step cref s (MouseDown e newId) = handleMouseDown cref s e newId"
| "step cref s (MouseMove e) = handleMouseMove cref s e"
| "step cref s MouseUp = handleMouseUp s"
| "step cref s (Wheel ctrl deltaY) = handleWheel s ctrl deltaY"
| "step cref s (SetTool t) = s\<lparr>tool := t\<rparr>"
| "step cref s Undo = undo s"
| "step cref s Redo = redo s"
| "step cref s ZoomIn = handleZoomIn s"
| "step cref s ZoomOut = handleZoomOut s"
| "step cref s ZoomReset = handleZoomReset s"
| "step cref s (SetFillMode b) = s\<lparr>fillMode := b\<rparr>"
| "step cref s (TextChange t) = (if isEditingText s then s\<lparr>textInputValue := t\<rparr> else s)"
| "step cref s (TextCommit newId) = (if isEditingText s then completeTextInput s newId else s)"
| "step cref s TextEscape = (if isEditingText s then cancelTextInput s else s)"
| "step cref s (UpdateElement updates) = updateSelectedElement s updates"
| "step cref s DeleteElement = deleteSelectedElement s"
| "step cref s (Drop e files newId) = handleDrop cref s e files newId"
| "step cref s (Upload files newId) = handleImageUpload cref s files newId"

definition run :: "canvas option \<Rightarrow> editor \<Rightarrow> event list \<Rightarrow> editor" where
  "run cref s evs = foldl (step cref) s evs"

text \<open>One pointer gesture: pointer-down, any number of pointer-moves, pointer-up.\<close>

definition gesture :: "canvas option \<Rightarrow> editor \<Rightarrow> mouse_event \<Rightarrow> string \<Rightarrow> mouse_event list \<Rightarrow> editor" where
  "gesture cref s down newId moves =
     handleMouseUp (foldl (handleMouseMove cref) (handleMouseDown cref s down newId) moves)"

text \<open>A commit: \<^verbatim>\<open>saveToHistory\<close> called in a render whose document is \<open>c\<close>.\<close>

definition commit :: "canvas_state \<Rightarrow> editor \<Rightarrow> editor" where
  "commit c s = saveToHistory (s\<lparr>canvasState := c\<rparr>) (s\<lparr>canvasState := c\<rparr>)"

definition commits :: "canvas_state list \<Rightarrow> editor \<Rightarrow> editor" where
  "commits cs s = foldl (\<lambda>s c. commit c s) s cs"

section \<open>Element identifiers along a run\<close>







text \<open>
  How one handler may change the history: not at all, or by one \<^verbatim>\<open>saveToHistory\<close> of
  the render \<open>r\<close>.
\<close>

definition hist_step :: "editor \<Rightarrow> editor \<Rightarrow> bool" where
  "hist_step r s' =
     (history s' = history r \<and> historyIndex s' = historyIndex r \<or>
      history s' = take (historyIndex r + 1) (history r) @ [canvasState r] \<and>
      historyIndex s' = length (history s') - 1)"

section \<open>Example inputs\<close>

text \<open>A mounted canvas of 800 by 600 at the origin of the page, without a 2d context.\<close>

definition exampleCanvas :: canvas where
  "exampleCanvas =
     \<lparr>cv_left = 0, cv_top = 0, cv_width = 800, cv_height = 600, cv_measureText = None\<rparr>"

text \<open>A line element as the line tool makes it with the initial colour and stroke.\<close>

definition lineAt :: "string \<Rightarrow> real \<Rightarrow> real \<Rightarrow> real \<Rightarrow> real \<Rightarrow> element" where
  "lineAt i x1 y1 x2 y2 =
     (baseElement i ''line'' x1 y1 ''#164e63'' 2)\<lparr>el_endX := Some x2, el_endY := Some y2\<rparr>"

text \<open>A rectangle element as the rectangle tool makes it with the initial colour and stroke.\<close>

definition rectAt :: "string \<Rightarrow> real \<Rightarrow> real \<Rightarrow> real \<Rightarrow> real \<Rightarrow> element" where
  "rectAt i ex ey w h =
     (baseElement i ''rectangle'' ex ey ''#164e63'' 2)\<lparr>el_width := Some w, el_height := Some h\<rparr>"

section \<open>Viewport: the conversion and its inverse\<close>



section \<open>History: truncation of the redo tail\<close>

lemma history_commit:
  "history (commit c s) = take (historyIndex s + 1) (history s) @ [c]"
  by (simp add: commit_def saveToHistory_def Let_def)

lemma historyIndex_commit:
  "historyIndex (commit c s) = min (historyIndex s + 1) (length (history s))"
  by (simp add: commit_def saveToHistory_def Let_def)

lemma commits_snoc: "commits (cs @ [c]) s = commit c (commits cs s)"
  by (simp add: commits_def)

lemma commits_hist:
  "hist_ok s \<Longrightarrow>
     historyIndex (commits cs s) = historyIndex s + length cs \<and>
     take (historyIndex s + length cs + 1) (history (commits cs s)) =
       take (historyIndex s + 1) (history s) @ cs \<and>
     length (history (commits cs s)) =
       (if cs = [] then length (history s) else historyIndex s + length cs + 1)"
proof (induction cs rule: rev_induct)
  case Nil
  then show ?case by (simp add: commits_def)
next
  case (snoc c cs)
  then have ix: "historyIndex (commits cs s) = historyIndex s + length cs"
    and tk: "take (historyIndex s + length cs + 1) (history (commits cs s)) =
       take (historyIndex s + 1) (history s) @ cs"
    and ln: "length (history (commits cs s)) =
       (if cs = [] then length (history s) else historyIndex s + length cs + 1)"
    by simp_all
  have lt: "historyIndex s + length cs < length (history (commits cs s))"
    using ln snoc.prems by (auto simp: hist_ok_def)
  show ?case
    using ix tk lt snoc.prems
    by (auto simp: commits_snoc history_commit historyIndex_commit min_def hist_ok_def)
qed

lemma undo_pow:
  "historyIndex ((undo ^^ k) s) = historyIndex s - k \<and> history ((undo ^^ k) s) = history s"
  by (induction k) (auto simp: undo_def)

text \<open>
  Claim C5. From a state whose index is inside the history, after \<open>N \<ge> 1\<close> commits
  (of any documents \<open>cs\<close>), \<open>k\<close> undos with \<open>1 \<le> k \<le> N\<close> and one more commit (of any
  document \<open>c\<close>): redo changes nothing, the history is the entries up to the index at
  commit time followed by the new entry, it is no longer than before (the \<open>k\<close> entries
  beyond the index are gone), and the index points at the new tail.
\<close>

theorem commit_truncates_redo:
  assumes "hist_ok s" and "1 \<le> length cs" and "1 \<le> k" and "k \<le> length cs"
  shows "(let before = commits cs s;
              after = commit c ((undo ^^ k) before)
          in redo after = after \<and>
             history after = take (historyIndex before - k + 1) (history before) @ [c] \<and>
             length (history after) = length (history before) - k + 1 \<and>
             historyIndex after = length (history after) - 1 \<and>
             last (history after) = c)"
proof -
  have h: "historyIndex (commits cs s) = historyIndex s + length cs"
    and l: "length (history (commits cs s)) = historyIndex s + length cs + 1"
    using commits_hist[OF assms(1), of cs] assms(2) by auto
  show ?thesis
    using h l assms undo_pow[of k "commits cs s"]
    by (auto simp: Let_def redo_def history_commit historyIndex_commit min_def)
qed

theorem commit_truncates_redo_witness:
  "(let c1 = \<lparr>elements = [], selectedElementId = Some ''a''\<rparr>;
        c2 = \<lparr>elements = [], selectedElementId = Some ''b''\<rparr>;
        c3 = \<lparr>elements = [], selectedElementId = Some ''c''\<rparr>;
        after = commit c3 ((undo ^^ 1) (commits [c1, c2] initialEditor))
    in hist_ok initialEditor \<and> redo after = after \<and>
       history after = [emptyCanvasState, c1, c3] \<and> historyIndex after = 2)"
  using commit_truncates_redo
    [of initialEditor "[\<lparr>elements = [], selectedElementId = Some ''a''\<rparr>,
                        \<lparr>elements = [], selectedElementId = Some ''b''\<rparr>]" 1
        "\<lparr>elements = [], selectedElementId = Some ''c''\<rparr>"]
  by (simp add: Let_def hist_ok_def initialEditor_def commits_def commit_def saveToHistory_def
      undo_def)

section \<open>Evaluating handlers on concrete states\<close>

lemma initialEditor_sel:
  "tool initialEditor = ''select''" "isDrawing initialEditor = False"
  "currentColor initialEditor = ''#164e63''" "strokeWidth initialEditor = 2"
  "fillMode initialEditor = True" "fontSize initialEditor = 16"
  "canvasState initialEditor = emptyCanvasState"
  "history initialEditor = [emptyCanvasState]" "historyIndex initialEditor = 0"
  "panOffset initialEditor = \<lparr>pt_x = 0, pt_y = 0\<rparr>" "zoom initialEditor = 1"
  "isPanning initialEditor = False" "lastPanPoint initialEditor = \<lparr>pt_x = 0, pt_y = 0\<rparr>"
  "isEditingText initialEditor = False"
  "textInputPosition initialEditor = \<lparr>pt_x = 0, pt_y = 0\<rparr>"
  "textInputValue initialEditor = []" "fontFamily initialEditor = ''Arial''"
  "textAlign initialEditor = ''left''" "isDragging initialEditor = False"
  "dragStart initialEditor = \<lparr>pt_x = 0, pt_y = 0\<rparr>"
  "dragElementStart initialEditor = \<lparr>pt_x = 0, pt_y = 0\<rparr>"
  by (simp_all add: initialEditor_def)


lemma baseElement_sel:
  "el_id (baseElement i ty ex ey col sw) = i" "el_type (baseElement i ty ex ey col sw) = ty"
  "el_x (baseElement i ty ex ey col sw) = ex" "el_y (baseElement i ty ex ey col sw) = ey"
  "el_color (baseElement i ty ex ey col sw) = col"
  "el_strokeWidth (baseElement i ty ex ey col sw) = sw"
  "el_points (baseElement i ty ex ey col sw) = None"
  "el_width (baseElement i ty ex ey col sw) = None"
  "el_height (baseElement i ty ex ey col sw) = None"
  "el_radius (baseElement i ty ex ey col sw) = None"
  "el_endX (baseElement i ty ex ey col sw) = None"
  "el_endY (baseElement i ty ex ey col sw) = None"
  "el_text (baseElement i ty ex ey col sw) = None"
  "el_fontSize (baseElement i ty ex ey col sw) = None"
  "el_imageWidth (baseElement i ty ex ey col sw) = None"
  "el_imageHeight (baseElement i ty ex ey col sw) = None"
  "el_imageData (baseElement i ty ex ey col sw) = None"
  "el_visible (baseElement i ty ex ey col sw) = Some True"
  by (simp_all add: baseElement_def)

section \<open>Hit testing: the top-most visible match\<close>

lemma findLoop_find:
  "n \<le> length els \<Longrightarrow>
   findLoop cref els pos n =
     map_option el_id
       (find (\<lambda>e. truthy_bool (el_visible e) \<and> hitTest cref e pos) (rev (take n els)))"
proof (induction n)
  case 0
  then show ?case by simp
next
  case (Suc n)
  then have "take (Suc n) els = take n els @ [els ! n]"
    by (simp add: take_Suc_conv_app_nth)
  with Suc show ?case by (simp add: Let_def)
qed

lemma find_append_miss:
  "\<forall>e\<in>set xs. \<not> P e \<Longrightarrow> find P (xs @ ys) = find P ys"
  by (induction xs) auto

text \<open>
  Claim C6. \<^verbatim>\<open>findElementAtPosition\<close> returns the id of the first element, in reverse
  sequence order, that is visible and whose containment test (\<open>hitTest\<close>, by variant)
  matches, and \<^verbatim>\<open>null\<close> when there is none. In particular, when \<open>A\<close> precedes \<open>B\<close> in
  the sequence, both are visible and contain the point, and no visible element after
  \<open>B\<close> contains it, the result is the id of \<open>B\<close>.
\<close>

theorem findElementAtPosition_topmost:
  "findElementAtPosition cref doc pos =
     map_option el_id
       (find (\<lambda>e. truthy_bool (el_visible e) \<and> hitTest cref e pos) (rev (elements doc))) \<and>
   (elements doc = lower @ [A] @ between @ [B] @ upper \<longrightarrow>
    truthy_bool (el_visible A) \<longrightarrow> hitTest cref A pos \<longrightarrow>
    truthy_bool (el_visible B) \<longrightarrow> hitTest cref B pos \<longrightarrow>
    (\<forall>e\<in>set upper. \<not> (truthy_bool (el_visible e) \<and> hitTest cref e pos)) \<longrightarrow>
    findElementAtPosition cref doc pos = Some (el_id B))"
proof -
  have eq: "findElementAtPosition cref doc pos =
     map_option el_id
       (find (\<lambda>e. truthy_bool (el_visible e) \<and> hitTest cref e pos) (rev (elements doc)))"
    by (simp add: findElementAtPosition_def findLoop_find)
  show ?thesis
    using eq by (auto simp: find_append_miss)
qed

theorem findElementAtPosition_topmost_witness:
  "findElementAtPosition None
     \<lparr>elements =
        [(baseElement ''a'' ''rectangle'' 10 10 ''#164e63'' 2)\<lparr>el_width := Some 50, el_height := Some 50\<rparr>,
         (baseElement ''b'' ''rectangle'' 0 0 ''#164e63'' 2)\<lparr>el_width := Some 100, el_height := Some 100\<rparr>],
      selectedElementId = None\<rparr>
     \<lparr>pt_x = 20, pt_y = 20\<rparr> = Some ''b''"
  using findElementAtPosition_topmost
    [of None
        "\<lparr>elements =
           [(baseElement ''a'' ''rectangle'' 10 10 ''#164e63'' 2)\<lparr>el_width := Some 50, el_height := Some 50\<rparr>,
            (baseElement ''b'' ''rectangle'' 0 0 ''#164e63'' 2)\<lparr>el_width := Some 100, el_height := Some 100\<rparr>],
          selectedElementId = None\<rparr>"
        "\<lparr>pt_x = 20, pt_y = 20\<rparr>" "[]"
        "(baseElement ''a'' ''rectangle'' 10 10 ''#164e63'' 2)\<lparr>el_width := Some 50, el_height := Some 50\<rparr>"
        "[]"
        "(baseElement ''b'' ''rectangle'' 0 0 ''#164e63'' 2)\<lparr>el_width := Some 100, el_height := Some 100\<rparr>"
        "[]"]
  by (simp add: hitTest_def num_or_def truthy_bool_def baseElement_sel)

section \<open>Drawing a rectangle\<close>

lemma rectangle_down:
  "handleMouseDown (Some cv) (initialEditor\<lparr>tool := ''rectangle''\<rparr>)
     (eventAt cv \<lparr>pt_x = 10, pt_y = 10\<rparr>) newId
   = initialEditor\<lparr>tool := ''rectangle'', isDrawing := True,
        canvasState :=
          \<lparr>elements = [(baseElement newId ''rectangle'' 10 10 ''#164e63'' 2)
                         \<lparr>el_width := Some 0, el_height := Some 0\<rparr>],
           selectedElementId = Some newId\<rparr>\<rparr>"
  by (simp add: handleMouseDown_def mouseDownBody_def addElement_def newShape_def
      appendElement_def getMousePos_def eventAt_def initialEditor_sel emptyCanvasState_def
      baseElement_sel)

lemma rectangle_move:
  "handleMouseMove (Some cv)
     (initialEditor\<lparr>tool := ''rectangle'', isDrawing := True,
        canvasState :=
          \<lparr>elements = [(baseElement newId ''rectangle'' 10 10 ''#164e63'' 2)
                         \<lparr>el_width := Some 0, el_height := Some 0\<rparr>],
           selectedElementId = Some newId\<rparr>\<rparr>)
     (eventAt cv \<lparr>pt_x = 110, pt_y = 60\<rparr>)
   = initialEditor\<lparr>tool := ''rectangle'', isDrawing := True,
        canvasState :=
          \<lparr>elements = [(baseElement newId ''rectangle'' 10 10 ''#164e63'' 2)
                         \<lparr>el_width := Some 100, el_height := Some 50\<rparr>],
           selectedElementId = Some newId\<rparr>\<rparr>"
  by (simp add: handleMouseMove_def resizeElement_def getMousePos_def eventAt_def
      initialEditor_sel baseElement_sel)

lemma rectangle_up:
  "handleMouseUp (initialEditor\<lparr>tool := ''rectangle'', isDrawing := True, canvasState := c\<rparr>)
   = initialEditor\<lparr>tool := ''rectangle'', isDrawing := False, canvasState := c,
        history := [emptyCanvasState, c], historyIndex := 1\<rparr>"
  by (simp add: handleMouseUp_def saveToHistory_def initialEditor_sel)

text \<open>
  Claim C7. From the initial (empty) editor with the rectangle tool, whatever the
  place of the canvas on the screen and whatever id is drawn: pointer-down at document
  point (10, 10), pointer-move to (110, 60), pointer-up. The element list is one
  rectangle with x = 10, y = 10, width = 100, height = 50; the selection is its id;
  the history is the initial empty entry followed by this document, of length 2.
\<close>

theorem rectangle_scenario:
  "(let s0 = initialEditor\<lparr>tool := ''rectangle''\<rparr>;
        s1 = gesture (Some cv) s0 (eventAt cv \<lparr>pt_x = 10, pt_y = 10\<rparr>) newId
               [eventAt cv \<lparr>pt_x = 110, pt_y = 60\<rparr>];
        rect = (baseElement newId ''rectangle'' 10 10 ''#164e63'' 2)
                 \<lparr>el_width := Some 100, el_height := Some 50\<rparr>
    in canvasState s1 = \<lparr>elements = [rect], selectedElementId = Some newId\<rparr> \<and>
       el_type rect = ''rectangle'' \<and> el_x rect = 10 \<and> el_y rect = 10 \<and>
       history s1 = [emptyCanvasState, canvasState s1] \<and>
       length (history s1) = 2 \<and> historyIndex s1 = 1)"
  by (simp add: gesture_def rectangle_down rectangle_move rectangle_up baseElement_sel)

section \<open>Pointer-down while a text is being edited\<close>

lemma run_Nil: "run cref s [] = s"
  by (simp add: run_def)

lemma run_Cons: "run cref s (ev # evs) = run cref (step cref s ev) evs"
  by (simp add: run_def)

lemma run_append: "run cref s (evs @ evs') = run cref (run cref s evs) evs'"
  by (simp add: run_def)

lemma getMousePos_eventAt:
  "zoom s = 1 \<Longrightarrow> panOffset s = \<lparr>pt_x = 0, pt_y = 0\<rparr> \<Longrightarrow>
   getMousePos (Some cv) s (eventAt cv p) = p"
  by (simp add: getMousePos_def eventAt_def)

lemma eventAt_sel: "button (eventAt cv p) = 0" "ctrlKey (eventAt cv p) = False"
  by (simp_all add: eventAt_def)





section \<open>Dragging a line\<close>

lemma lineAt_sel:
  "el_id (lineAt i x1 y1 x2 y2) = i" "el_type (lineAt i x1 y1 x2 y2) = ''line''"
  "el_x (lineAt i x1 y1 x2 y2) = x1" "el_y (lineAt i x1 y1 x2 y2) = y1"
  "el_endX (lineAt i x1 y1 x2 y2) = Some x2" "el_endY (lineAt i x1 y1 x2 y2) = Some y2"
  "el_visible (lineAt i x1 y1 x2 y2) = Some True" "el_strokeWidth (lineAt i x1 y1 x2 y2) = 2"
  by (simp_all add: lineAt_def baseElement_sel)

lemma lineAt_upd:
  "(lineAt i x1 y1 x2 y2)\<lparr>el_x := a, el_y := b, el_endX := Some c, el_endY := Some d\<rparr>
     = lineAt i a b c d"
  "(lineAt i x1 y1 x2 y2)\<lparr>el_endX := Some c, el_endY := Some d\<rparr> = lineAt i x1 y1 c d"
  by (simp_all add: lineAt_def baseElement_def)

text \<open>
  One drag step on a line: the anchor is set from the anchor at drag start, the end
  point from the end point as it is now; \<open>deltaX\<close>, \<open>deltaY\<close> are the pointer's
  distance from the drag start. So the segment vector grows by what the anchor had
  already moved.
\<close>

lemma dragElement_line_vector:
  assumes "el_type el = ''line''" and "el_endX el = Some ax" and "ax \<noteq> 0"
  shows "the (el_endX (dragElement r deltaX deltaY el)) - el_x (dragElement r deltaX deltaY el)
           = (ax - el_x el) + (el_x el - pt_x (dragElementStart r))"
  using assms by (simp add: dragElement_def num_or_def)

text \<open>The line from (10, 10) to (50, 10), drawn with the line tool and selected.\<close>

lemma line_drawn:
  "run (Some cv) initialEditor
     [SetTool ''line'', MouseDown (eventAt cv \<lparr>pt_x = 10, pt_y = 10\<rparr>) i,
      MouseMove (eventAt cv \<lparr>pt_x = 50, pt_y = 10\<rparr>), MouseUp, SetTool ''select'']
   = initialEditor
       \<lparr>canvasState := \<lparr>elements = [lineAt i 10 10 50 10], selectedElementId = Some i\<rparr>,
        history := [emptyCanvasState,
                    \<lparr>elements = [lineAt i 10 10 50 10], selectedElementId = Some i\<rparr>],
        historyIndex := 1\<rparr>"
proof -
  let ?s1 = "initialEditor\<lparr>tool := ''line''\<rparr>"
  let ?s2 = "initialEditor\<lparr>tool := ''line'', isDrawing := True,
      canvasState := \<lparr>elements = [lineAt i 10 10 10 10], selectedElementId = Some i\<rparr>\<rparr>"
  let ?s3 = "initialEditor\<lparr>tool := ''line'', isDrawing := True,
      canvasState := \<lparr>elements = [lineAt i 10 10 50 10], selectedElementId = Some i\<rparr>\<rparr>"
  let ?s4 = "initialEditor\<lparr>tool := ''line'', isDrawing := False,
      canvasState := \<lparr>elements = [lineAt i 10 10 50 10], selectedElementId = Some i\<rparr>,
      history := [emptyCanvasState,
                  \<lparr>elements = [lineAt i 10 10 50 10], selectedElementId = Some i\<rparr>],
      historyIndex := 1\<rparr>"
  have d: "handleMouseDown (Some cv) ?s1 (eventAt cv \<lparr>pt_x = 10, pt_y = 10\<rparr>) i = ?s2"
    by (simp add: handleMouseDown_def mouseDownBody_def addElement_def newShape_def
        appendElement_def getMousePos_eventAt eventAt_sel initialEditor_sel emptyCanvasState_def
        lineAt_def baseElement_sel)
  have m: "handleMouseMove (Some cv) ?s2 (eventAt cv \<lparr>pt_x = 50, pt_y = 10\<rparr>) = ?s3"
    by (simp add: handleMouseMove_def resizeElement_def getMousePos_eventAt
        initialEditor_sel lineAt_upd)
  have u: "handleMouseUp ?s3 = ?s4"
    by (simp add: handleMouseUp_def saveToHistory_def initialEditor_sel)
  have t: "?s4\<lparr>tool := ''select''\<rparr> = initialEditor
       \<lparr>canvasState := \<lparr>elements = [lineAt i 10 10 50 10], selectedElementId = Some i\<rparr>,
        history := [emptyCanvasState,
                    \<lparr>elements = [lineAt i 10 10 50 10], selectedElementId = Some i\<rparr>],
        historyIndex := 1\<rparr>"
    by (simp add: initialEditor_def)
  show ?thesis
    by (simp only: run_Cons run_Nil step.simps d m u t)
qed

text \<open>Pointer-down on the middle of that line, then two pointer-moves of one unit each.\<close>

lemma line_dragged:
  "i \<noteq> [] \<Longrightarrow>
   run (Some cv)
     (initialEditor
        \<lparr>canvasState := \<lparr>elements = [lineAt i 10 10 50 10], selectedElementId = Some i\<rparr>,
         history := [emptyCanvasState,
                     \<lparr>elements = [lineAt i 10 10 50 10], selectedElementId = Some i\<rparr>],
         historyIndex := 1\<rparr>)
     [MouseDown (eventAt cv \<lparr>pt_x = 30, pt_y = 10\<rparr>) j,
      MouseMove (eventAt cv \<lparr>pt_x = 31, pt_y = 10\<rparr>),
      MouseMove (eventAt cv \<lparr>pt_x = 32, pt_y = 10\<rparr>)]
   = initialEditor
       \<lparr>canvasState := \<lparr>elements = [lineAt i 12 10 53 10], selectedElementId = Some i\<rparr>,
        history := [emptyCanvasState,
                    \<lparr>elements = [lineAt i 10 10 50 10], selectedElementId = Some i\<rparr>],
        historyIndex := 1, isDrawing := True, isDragging := True,
        dragStart := \<lparr>pt_x = 30, pt_y = 10\<rparr>, dragElementStart := \<lparr>pt_x = 10, pt_y = 10\<rparr>\<rparr>"
  (is "_ \<Longrightarrow> run _ ?s0 _ = ?s3")
proof -
  assume ne: "i \<noteq> []"
  let ?h = "[emptyCanvasState, \<lparr>elements = [lineAt i 10 10 50 10], selectedElementId = Some i\<rparr>]"
  let ?s1 = "initialEditor
       \<lparr>canvasState := \<lparr>elements = [lineAt i 10 10 50 10], selectedElementId = Some i\<rparr>,
        history := ?h, historyIndex := 1, isDrawing := True, isDragging := True,
        dragStart := \<lparr>pt_x = 30, pt_y = 10\<rparr>, dragElementStart := \<lparr>pt_x = 10, pt_y = 10\<rparr>\<rparr>"
  let ?s2 = "initialEditor
       \<lparr>canvasState := \<lparr>elements = [lineAt i 11 10 51 10], selectedElementId = Some i\<rparr>,
        history := ?h, historyIndex := 1, isDrawing := True, isDragging := True,
        dragStart := \<lparr>pt_x = 30, pt_y = 10\<rparr>, dragElementStart := \<lparr>pt_x = 10, pt_y = 10\<rparr>\<rparr>"
  have hit: "findElementAtPosition (Some cv)
      \<lparr>elements = [lineAt i 10 10 50 10], selectedElementId = Some i\<rparr>
      \<lparr>pt_x = 30, pt_y = 10\<rparr> = Some i"
    by (simp add: findElementAtPosition_def hitTest_def lineAt_sel num_or_def
        truthy_bool_def Let_def)
  have d: "handleMouseDown (Some cv) ?s0 (eventAt cv \<lparr>pt_x = 30, pt_y = 10\<rparr>) j = ?s1"
    using ne
    by (simp add: handleMouseDown_def mouseDownBody_def hit truthy_str_def Let_def
        getMousePos_eventAt eventAt_sel initialEditor_sel lineAt_sel)
  have m1: "handleMouseMove (Some cv) ?s1 (eventAt cv \<lparr>pt_x = 31, pt_y = 10\<rparr>) = ?s2"
    using ne
    by (simp add: handleMouseMove_def dragElement_def truthy_str_def num_or_def Let_def
        getMousePos_eventAt initialEditor_sel lineAt_sel lineAt_upd)
  have m2: "handleMouseMove (Some cv) ?s2 (eventAt cv \<lparr>pt_x = 32, pt_y = 10\<rparr>) = ?s3"
    using ne
    by (simp add: handleMouseMove_def dragElement_def truthy_str_def num_or_def Let_def
        getMousePos_eventAt initialEditor_sel lineAt_sel lineAt_upd)
  show ?thesis
    by (simp only: run_Cons run_Nil step.simps d m1 m2)
qed

text \<open>
  Claim C1 fails on the code. A line from (10, 10) to (50, 10) is drawn, then dragged
  with the select tool from (30, 10): after the pointer-moves to (31, 10) and to
  (32, 10) the anchor is at (12, 10), moved by the cumulative delta 2, and the end point
  at (53, 10), moved by 1 + 2. The segment vector was (40, 0) and is (41, 0).
\<close>

theorem line_drag_changes_segment:
  "elements (canvasState
     (run (Some exampleCanvas) initialEditor
        [SetTool ''line'', MouseDown (eventAt exampleCanvas \<lparr>pt_x = 10, pt_y = 10\<rparr>) ''l'',
         MouseMove (eventAt exampleCanvas \<lparr>pt_x = 50, pt_y = 10\<rparr>), MouseUp,
         SetTool ''select'']))
   = [lineAt ''l'' 10 10 50 10] \<and>
   elements (canvasState
     (run (Some exampleCanvas) initialEditor
        ([SetTool ''line'', MouseDown (eventAt exampleCanvas \<lparr>pt_x = 10, pt_y = 10\<rparr>) ''l'',
          MouseMove (eventAt exampleCanvas \<lparr>pt_x = 50, pt_y = 10\<rparr>), MouseUp,
          SetTool ''select''] @
         [MouseDown (eventAt exampleCanvas \<lparr>pt_x = 30, pt_y = 10\<rparr>) ''m'',
          MouseMove (eventAt exampleCanvas \<lparr>pt_x = 31, pt_y = 10\<rparr>),
          MouseMove (eventAt exampleCanvas \<lparr>pt_x = 32, pt_y = 10\<rparr>)])))
   = [lineAt ''l'' 12 10 53 10] \<and>
   the (el_endX (lineAt ''l'' 10 10 50 10)) - el_x (lineAt ''l'' 10 10 50 10) = 40 \<and>
   the (el_endX (lineAt ''l'' 12 10 53 10)) - el_x (lineAt ''l'' 12 10 53 10) = 41"
proof -
  have ne: "''l'' \<noteq> []" by simp
  show ?thesis
    unfolding run_append line_drawn line_dragged [OF ne]
    by (simp add: lineAt_sel)
qed

section \<open>When the history grows\<close>

lemma handleMouseMove_history:
  "history (handleMouseMove cref r e) = history r \<and>
   historyIndex (handleMouseMove cref r e) = historyIndex r"
  by (simp add: handleMouseMove_def Let_def)

lemma mouseDownBody_history:
  "history (mouseDownBody cref r e newId) = history r \<and>
   historyIndex (mouseDownBody cref r e newId) = historyIndex r"
  by (simp add: mouseDownBody_def Let_def addElement_def split: option.split)

lemma handleMouseUp_history:
  "history (handleMouseUp r) =
     (if isDragging r \<or> isDrawing r
      then take (historyIndex r + 1) (history r) @ [canvasState r] else history r)"
  by (simp add: handleMouseUp_def saveToHistory_def Let_def)

lemma mouseDownBody_isDrawing:
  "isDrawing (mouseDownBody cref r e newId) =
     (if button e = 1 \<or> (button e = 0 \<and> (ctrlKey e \<or> tool r = ''pan''))
      then isDrawing r else True)"
  by (auto simp: mouseDownBody_def Let_def addElement_def split: option.split)

lemma handleMouseMove_flags:
  "isDrawing (handleMouseMove cref r e) = isDrawing r \<and>
   isDragging (handleMouseMove cref r e) = isDragging r"
  by (simp add: handleMouseMove_def Let_def)

lemma moves_keep:
  "isDrawing (foldl (handleMouseMove cref) s ms) = isDrawing s \<and>
   isDragging (foldl (handleMouseMove cref) s ms) = isDragging s \<and>
   history (foldl (handleMouseMove cref) s ms) = history s \<and>
   historyIndex (foldl (handleMouseMove cref) s ms) = historyIndex s"
  by (induction ms arbitrary: s) (simp_all add: handleMouseMove_flags handleMouseMove_history)

text \<open>
  A gesture that does not start a pan, begun while no text is edited, pushes exactly
  one entry at its pointer-up, whatever the tool; its pointer-moves push none. A pan
  gesture pushes none.
\<close>

lemma gesture_history:
  assumes "\<not> isEditingText s"
    and "\<not> (button down = 1 \<or> (button down = 0 \<and> (ctrlKey down \<or> tool s = ''pan'')))"
  shows "history (gesture cref s down newId moves) =
           take (historyIndex s + 1) (history s) @
           [canvasState (foldl (handleMouseMove cref) (handleMouseDown cref s down newId) moves)]"
proof -
  let ?d = "handleMouseDown cref s down newId"
  have d: "?d = mouseDownBody cref s down newId"
    using assms(1) by (simp add: handleMouseDown_def)
  have "isDrawing ?d"
    using assms(2) by (auto simp: d mouseDownBody_isDrawing)
  moreover have "history ?d = history s" "historyIndex ?d = historyIndex s"
    by (simp_all add: d mouseDownBody_history)
  ultimately show ?thesis
    by (simp add: gesture_def handleMouseUp_history moves_keep)
qed

lemma pan_gesture_history:
  assumes "\<not> isEditingText s" and "\<not> isDrawing s" and "\<not> isDragging s"
    and "button down = 1 \<or> (button down = 0 \<and> (ctrlKey down \<or> tool s = ''pan''))"
  shows "history (gesture cref s down newId moves) = history s"
proof -
  let ?d = "handleMouseDown cref s down newId"
  have d: "?d = mouseDownBody cref s down newId"
    using assms(1) by (simp add: handleMouseDown_def)
  have "\<not> isDrawing ?d" "\<not> isDragging ?d"
    using assms(2,3,4) by (auto simp: d mouseDownBody_def)
  moreover have "history ?d = history s"
    by (simp add: d mouseDownBody_history)
  ultimately show ?thesis
    by (simp add: gesture_def handleMouseUp_history moves_keep)
qed

text \<open>
  Claim C2 fails on the code. From the initial editor (select tool, empty document) a
  click on the canvas, pointer-down and pointer-up with no move, neither draws nor
  drags: the document is as before and nothing is dragged. Yet the history has a second
  entry. The same holds for a click with the image tool.
\<close>

theorem click_appends_history_entry:
  "canvasState (gesture (Some exampleCanvas) initialEditor
      (eventAt exampleCanvas \<lparr>pt_x = 5, pt_y = 5\<rparr>) ''x'' []) = emptyCanvasState \<and>
   isDragging (handleMouseDown (Some exampleCanvas) initialEditor
      (eventAt exampleCanvas \<lparr>pt_x = 5, pt_y = 5\<rparr>) ''x'') = False \<and>
   history (gesture (Some exampleCanvas) initialEditor
      (eventAt exampleCanvas \<lparr>pt_x = 5, pt_y = 5\<rparr>) ''x'' [])
     = [emptyCanvasState, emptyCanvasState] \<and>
   canvasState (gesture (Some exampleCanvas) (initialEditor\<lparr>tool := ''image''\<rparr>)
      (eventAt exampleCanvas \<lparr>pt_x = 5, pt_y = 5\<rparr>) ''x'' []) = emptyCanvasState \<and>
   history (gesture (Some exampleCanvas) (initialEditor\<lparr>tool := ''image''\<rparr>)
      (eventAt exampleCanvas \<lparr>pt_x = 5, pt_y = 5\<rparr>) ''x'' [])
     = [emptyCanvasState, emptyCanvasState]"
proof -
  let ?e = "eventAt exampleCanvas \<lparr>pt_x = 5, pt_y = 5\<rparr>"
  have miss: "findElementAtPosition (Some exampleCanvas)
                \<lparr>elements = [], selectedElementId = None\<rparr> p = None" for p
    by (simp add: findElementAtPosition_def)
  have d1: "handleMouseDown (Some exampleCanvas) initialEditor ?e ''x''
              = initialEditor\<lparr>isDrawing := True\<rparr>"
    by (simp add: handleMouseDown_def mouseDownBody_def Let_def miss truthy_str_def
        eventAt_sel initialEditor_sel emptyCanvasState_def)
  have d2: "handleMouseDown (Some exampleCanvas) (initialEditor\<lparr>tool := ''image''\<rparr>) ?e ''x''
              = initialEditor\<lparr>tool := ''image'', isDrawing := True\<rparr>"
    by (simp add: handleMouseDown_def mouseDownBody_def Let_def eventAt_sel initialEditor_sel)
  show ?thesis
    by (simp add: gesture_def d1 d2 handleMouseUp_def saveToHistory_def initialEditor_sel)
qed

section \<open>Undo followed by redo\<close>

text \<open>
  Undo followed by redo gives back the state when the document is the history entry
  at the index, as it is after the pointer-up that ends a draw or a drag.
\<close>

lemma undo_redo_saved:
  assumes "0 < historyIndex s" and "hist_ok s" and "canvasState s = history s ! historyIndex s"
  shows "redo (undo s) = s"
  using assms by (cases s) (auto simp: undo_def redo_def hist_ok_def)

lemma handleMouseUp_saved:
  assumes "isDrawing r \<or> isDragging r" and "hist_ok r"
  shows "canvasState (handleMouseUp r) = history (handleMouseUp r) ! historyIndex (handleMouseUp r)"
  using assms
  by (auto simp: handleMouseUp_def saveToHistory_def Let_def hist_ok_def nth_append min_def)

lemma rectAt_sel:
  "el_id (rectAt i ex ey w h) = i" "el_type (rectAt i ex ey w h) = ''rectangle''"
  "el_x (rectAt i ex ey w h) = ex" "el_y (rectAt i ex ey w h) = ey"
  "el_width (rectAt i ex ey w h) = Some w" "el_height (rectAt i ex ey w h) = Some h"
  "el_visible (rectAt i ex ey w h) = Some True"
  by (simp_all add: rectAt_def baseElement_sel)

text \<open>
  Claim C4 fails on the code. A rectangle is drawn (one committed gesture) and its
  colour is then edited in the properties panel (a direct property edit). The index is
  2 and the rectangle is red. Undo and then redo leave the rectangle in its first
  colour: the entry that the edit pushed is the document of the render in which the
  edit was made, not the document after the edit.
\<close>

theorem undo_redo_after_edit:
  "historyIndex
     (run (Some exampleCanvas) initialEditor
        [SetTool ''rectangle'', MouseDown (eventAt exampleCanvas \<lparr>pt_x = 10, pt_y = 10\<rparr>) ''r'',
         MouseMove (eventAt exampleCanvas \<lparr>pt_x = 110, pt_y = 60\<rparr>), MouseUp,
         UpdateElement [F_color ''#ff0000'']]) = 2 \<and>
   canvasState
     (run (Some exampleCanvas) initialEditor
        [SetTool ''rectangle'', MouseDown (eventAt exampleCanvas \<lparr>pt_x = 10, pt_y = 10\<rparr>) ''r'',
         MouseMove (eventAt exampleCanvas \<lparr>pt_x = 110, pt_y = 60\<rparr>), MouseUp,
         UpdateElement [F_color ''#ff0000'']])
     = \<lparr>elements = [(rectAt ''r'' 10 10 100 50)\<lparr>el_color := ''#ff0000''\<rparr>],
        selectedElementId = Some ''r''\<rparr> \<and>
   canvasState
     (run (Some exampleCanvas) initialEditor
        [SetTool ''rectangle'', MouseDown (eventAt exampleCanvas \<lparr>pt_x = 10, pt_y = 10\<rparr>) ''r'',
         MouseMove (eventAt exampleCanvas \<lparr>pt_x = 110, pt_y = 60\<rparr>), MouseUp,
         UpdateElement [F_color ''#ff0000''], Undo, Redo])
     = \<lparr>elements = [rectAt ''r'' 10 10 100 50], selectedElementId = Some ''r''\<rparr> \<and>
   el_color (rectAt ''r'' 10 10 100 50) = ''#164e63''"
proof -
  let ?c = "\<lparr>elements = [rectAt ''r'' 10 10 100 50], selectedElementId = Some ''r''\<rparr>"
  let ?c' = "\<lparr>elements = [(rectAt ''r'' 10 10 100 50)\<lparr>el_color := ''#ff0000''\<rparr>],
              selectedElementId = Some ''r''\<rparr>"
  let ?s4 = "initialEditor\<lparr>tool := ''rectangle'', isDrawing := False, canvasState := ?c,
        history := [emptyCanvasState, ?c], historyIndex := 1\<rparr>"
  let ?s5 = "initialEditor\<lparr>tool := ''rectangle'', isDrawing := False, canvasState := ?c',
        history := [emptyCanvasState, ?c, ?c], historyIndex := 2\<rparr>"
  have drawn: "run (Some exampleCanvas) initialEditor
        [SetTool ''rectangle'', MouseDown (eventAt exampleCanvas \<lparr>pt_x = 10, pt_y = 10\<rparr>) ''r'',
         MouseMove (eventAt exampleCanvas \<lparr>pt_x = 110, pt_y = 60\<rparr>), MouseUp] = ?s4"
    by (simp only: run_Cons run_Nil step.simps rectangle_down rectangle_move rectangle_up
        rectAt_def)
  have edit: "updateSelectedElement ?s4 [F_color ''#ff0000''] = ?s5"
    by (simp add: updateSelectedElement_def saveToHistory_def truthy_str_def Let_def rectAt_sel
        spread_def)
  have all: "run (Some exampleCanvas) initialEditor
        [SetTool ''rectangle'', MouseDown (eventAt exampleCanvas \<lparr>pt_x = 10, pt_y = 10\<rparr>) ''r'',
         MouseMove (eventAt exampleCanvas \<lparr>pt_x = 110, pt_y = 60\<rparr>), MouseUp,
         UpdateElement [F_color ''#ff0000'']] = ?s5"
    using drawn edit run_append [of "Some exampleCanvas" initialEditor
        "[SetTool ''rectangle'', MouseDown (eventAt exampleCanvas \<lparr>pt_x = 10, pt_y = 10\<rparr>) ''r'',
          MouseMove (eventAt exampleCanvas \<lparr>pt_x = 110, pt_y = 60\<rparr>), MouseUp]"
        "[UpdateElement [F_color ''#ff0000'']]"]
    by (simp add: run_Cons run_Nil)
  have ur: "redo (undo ?s5) = ?s5\<lparr>canvasState := ?c\<rparr>"
    by (simp add: undo_def redo_def)
  have all2: "run (Some exampleCanvas) initialEditor
        [SetTool ''rectangle'', MouseDown (eventAt exampleCanvas \<lparr>pt_x = 10, pt_y = 10\<rparr>) ''r'',
         MouseMove (eventAt exampleCanvas \<lparr>pt_x = 110, pt_y = 60\<rparr>), MouseUp,
         UpdateElement [F_color ''#ff0000''], Undo, Redo] = ?s5\<lparr>canvasState := ?c\<rparr>"
    using all ur run_append [of "Some exampleCanvas" initialEditor
        "[SetTool ''rectangle'', MouseDown (eventAt exampleCanvas \<lparr>pt_x = 10, pt_y = 10\<rparr>) ''r'',
          MouseMove (eventAt exampleCanvas \<lparr>pt_x = 110, pt_y = 60\<rparr>), MouseUp,
          UpdateElement [F_color ''#ff0000'']]"
        "[Undo, Redo]"]
    by (simp add: run_Cons run_Nil)
  show ?thesis
    unfolding all all2 by (simp add: rectAt_def baseElement_sel)
qed

section \<open>Dropping image files\<close>








section \<open>Identifiers: distinct and stable\<close>




















lemma hist_step_refl: "hist_step r r"
  by (simp add: hist_step_def)

lemma hist_step_same:
  "history s' = history r \<Longrightarrow> historyIndex s' = historyIndex r \<Longrightarrow> hist_step r s'"
  by (simp add: hist_step_def)

lemma hist_step_completeTextInput: "hist_step r (completeTextInput r newId)"
  by (simp add: hist_step_def completeTextInput_def saveToHistory_def Let_def)

lemma hist_step_handleMouseDown: "hist_step r (handleMouseDown cref r e newId)"
  using mouseDownBody_history [of cref r e newId]
  by (simp add: handleMouseDown_def hist_step_completeTextInput hist_step_same)

lemma hist_step_handleMouseMove: "hist_step r (handleMouseMove cref r e)"
  using handleMouseMove_history [of cref r e] by (simp add: hist_step_same)

lemma hist_step_handleMouseUp: "hist_step r (handleMouseUp r)"
  by (simp add: hist_step_def handleMouseUp_def saveToHistory_def Let_def)

lemma hist_step_updateSelectedElement: "hist_step r (updateSelectedElement r us)"
  by (simp add: hist_step_def updateSelectedElement_def saveToHistory_def Let_def)

lemma hist_step_deleteSelectedElement: "hist_step r (deleteSelectedElement r)"
  by (simp add: hist_step_def deleteSelectedElement_def saveToHistory_def Let_def)

lemma hist_step_processImageFile: "hist_step r (processImageFile r cref f dp newId r)"
  by (simp add: hist_step_def processImageFile_def imageOnload_def saveToHistory_def Let_def
      split: option.split prod.split)

lemma hist_step_handleDrop: "hist_step r (handleDrop cref r e files newId)"
  by (simp add: handleDrop_def Let_def hist_step_refl hist_step_processImageFile
      split: option.split)

lemma hist_step_handleImageUpload: "hist_step r (handleImageUpload cref r files newId)"
  by (simp add: handleImageUpload_def hist_step_refl hist_step_processImageFile
      split: list.split)

lemma hist_step_step:
  "ev \<noteq> Undo \<Longrightarrow> ev \<noteq> Redo \<Longrightarrow> hist_step s (step cref s ev)"
  by (cases ev)
     (simp_all add: hist_step_handleMouseDown hist_step_handleMouseMove hist_step_handleMouseUp
        hist_step_updateSelectedElement hist_step_deleteSelectedElement hist_step_handleDrop
        hist_step_handleImageUpload hist_step_completeTextInput hist_step_same
        handleWheel_def handleZoomIn_def handleZoomOut_def handleZoomReset_def cancelTextInput_def
        Let_def)














section \<open>Invariants of every run\<close>

text \<open>
  Along every run from the initial editor the history index is inside the history, so
  the reads \<^verbatim>\<open>history[historyIndex - 1]\<close> and \<^verbatim>\<open>history[historyIndex + 1]\<close> of undo
  and redo are always in range, and the zoom is in the range \<open>[0.1, 5]\<close>, so
  \<^verbatim>\<open>getMousePos\<close> never divides by zero.
\<close>

lemma hist_ok_step: "hist_ok s \<Longrightarrow> hist_ok (step cref s ev)"
proof (cases "ev = Undo \<or> ev = Redo")
  case True
  assume "hist_ok s"
  with True show ?thesis by (auto simp: hist_ok_def undo_def redo_def)
next
  case False
  assume "hist_ok s"
  with False hist_step_step [of ev s cref] show ?thesis
    by (auto simp: hist_ok_def hist_step_def)
qed

lemma hist_ok_run: "hist_ok s \<Longrightarrow> hist_ok (run cref s evs)"
  by (induction evs arbitrary: s) (simp_all add: run_Nil run_Cons hist_ok_step)

lemma hist_ok_reachable: "hist_ok (run cref initialEditor evs)"
  by (rule hist_ok_run) (simp add: hist_ok_def initialEditor_sel)

lemma zoom_ok_step: "zoom_ok s \<Longrightarrow> zoom_ok (step cref s ev)"
proof (cases ev)
  case (MouseDown e newId)
  assume "zoom_ok s"
  then show ?thesis
    using MouseDown
    by (auto simp: zoom_ok_def handleMouseDown_def mouseDownBody_def completeTextInput_def
        saveToHistory_def addElement_def Let_def split: option.split)
next
  case (MouseMove e)
  assume "zoom_ok s"
  then show ?thesis using MouseMove by (simp add: zoom_ok_def handleMouseMove_def Let_def)
next
  case (Drop e files newId)
  assume "zoom_ok s"
  then show ?thesis
    using Drop
    by (auto simp: zoom_ok_def handleDrop_def processImageFile_def imageOnload_def
        saveToHistory_def Let_def split: option.split prod.split)
next
  case (Upload files newId)
  assume "zoom_ok s"
  then show ?thesis
    using Upload
    by (auto simp: zoom_ok_def handleImageUpload_def processImageFile_def imageOnload_def
        saveToHistory_def Let_def split: option.split prod.split list.split)
qed (auto simp: zoom_ok_def handleMouseUp_def saveToHistory_def Let_def handleWheel_def undo_def
      redo_def handleZoomIn_def handleZoomOut_def handleZoomReset_def completeTextInput_def
      cancelTextInput_def updateSelectedElement_def deleteSelectedElement_def)

lemma zoom_ok_run: "zoom_ok s \<Longrightarrow> zoom_ok (run cref s evs)"
  by (induction evs arbitrary: s) (simp_all add: run_Nil run_Cons zoom_ok_step del: step.simps)

lemma zoom_ok_reachable: "zoom_ok (run cref initialEditor evs)"
  by (rule zoom_ok_run) (simp add: zoom_ok_def initialEditor_sel)

end
